theory Spec2Isabelle
  imports Complex_Main
begin

section \<open>Strings and dictionaries\<close>

text \<open>
  A Python \<open>str\<close> is a sequence of Unicode code points; it is modelled as the list of
  those code points. Every string constant of the repository is written as its code
  points, with the text it spells in the comment beside it (e-acute is U+00E9 = 233,
  e-grave is U+00E8 = 232).
\<close>

type_synonym pystr = "nat list"

text \<open>
  A Python \<open>dict\<close> is an association list in insertion order. \<open>dict_get\<close> is the
  lookup (\<open>None\<close> where Python's \<open>d[k]\<close> raises \<open>KeyError\<close> and \<open>k in d\<close> is
  false); \<open>dict_set\<close> is \<open>d[k] = v\<close>: an existing key keeps its place, a new key goes
  to the end.
\<close>

type_synonym ('k, 'v) dict = "('k \<times> 'v) list"

fun dict_get :: "('k, 'v) dict \<Rightarrow> 'k \<Rightarrow> 'v option" where
  "dict_get [] k = None"
| "dict_get ((k', v) # d) k = (if k = k' then Some v else dict_get d k)"

fun dict_set :: "'k \<Rightarrow> 'v \<Rightarrow> ('k, 'v) dict \<Rightarrow> ('k, 'v) dict" where
  "dict_set k v [] = [(k, v)]"
| "dict_set k v ((k', v') # d) = (if k = k' then (k, v) # d else (k', v') # dict_set k v d)"

definition dict_keys :: "('k, 'v) dict \<Rightarrow> 'k list" where
  "dict_keys d = map fst d"

definition dict_values :: "('k, 'v) dict \<Rightarrow> 'v list" where
  "dict_values d = map snd d"

datatype py_error = KeyError pystr | AttributeError | ValueError




section \<open>config.py\<close>

subsection \<open>The statistics\<close>

abbreviation Force_Physique :: pystr where
  "Force_Physique \<equiv> [70, 111, 114, 99, 101, 32, 80, 104, 121, 115, 105, 113, 117, 101]"
  \<comment> \<open>"Force Physique"\<close>
abbreviation Precision :: pystr where
  "Precision \<equiv> [80, 114, 233, 99, 105, 115, 105, 111, 110]"
  \<comment> \<open>"Pr\'ecision"\<close>
abbreviation Manip_Ballon :: pystr where
  "Manip_Ballon \<equiv> [77, 97, 110, 105, 112, 46, 32, 66, 97, 108, 108, 111, 110]"
  \<comment> \<open>"Manip. Ballon"\<close>
abbreviation Agilite :: pystr where
  "Agilite \<equiv> [65, 103, 105, 108, 105, 116, 233]"
  \<comment> \<open>"Agilit\'e"\<close>
abbreviation Detente :: pystr where
  "Detente \<equiv> [68, 233, 116, 101, 110, 116, 101]"
  \<comment> \<open>"D\'etente"\<close>
abbreviation Defense :: pystr where
  "Defense \<equiv> [68, 233, 102, 101, 110, 115, 101]"
  \<comment> \<open>"D\'efense"\<close>
abbreviation Vitesse :: pystr where
  "Vitesse \<equiv> [86, 105, 116, 101, 115, 115, 101]"
  \<comment> \<open>"Vitesse"\<close>
abbreviation Endurance :: pystr where
  "Endurance \<equiv> [69, 110, 100, 117, 114, 97, 110, 99, 101]"
  \<comment> \<open>"Endurance"\<close>

subsection \<open>The archetypes\<close>

abbreviation Meneur :: pystr where
  "Meneur \<equiv> [77, 101, 110, 101, 117, 114]"
  \<comment> \<open>"Meneur"\<close>
abbreviation Arriere :: pystr where
  "Arriere \<equiv> [65, 114, 114, 105, 232, 114, 101]"
  \<comment> \<open>"Arri\`ere"\<close>
abbreviation Ailier :: pystr where
  "Ailier \<equiv> [65, 105, 108, 105, 101, 114]"
  \<comment> \<open>"Ailier"\<close>
abbreviation Ailier_Fort :: pystr where
  "Ailier_Fort \<equiv> [65, 105, 108, 105, 101, 114, 32, 70, 111, 114, 116]"
  \<comment> \<open>"Ailier Fort"\<close>
abbreviation Pivot :: pystr where
  "Pivot \<equiv> [80, 105, 118, 111, 116]"
  \<comment> \<open>"Pivot"\<close>
abbreviation Generaliste :: pystr where
  "Generaliste \<equiv> [71, 233, 110, 233, 114, 97, 108, 105, 115, 116, 101]"
  \<comment> \<open>"G\'en\'eraliste"\<close>

abbreviation Guard :: pystr where "Guard \<equiv> [71, 117, 97, 114, 100]"
abbreviation Forward :: pystr where "Forward \<equiv> [70, 111, 114, 119, 97, 114, 100]"
abbreviation Center :: pystr where "Center \<equiv> [67, 101, 110, 116, 101, 114]"
abbreviation Flexible :: pystr where "Flexible \<equiv> [70, 108, 101, 120, 105, 98, 108, 101]"

text \<open>
  An entry of \<open>ARCHETYPES\<close>. Its \<open>description\<close> is a text shown to the user and is
  read by no rule of the ledger; the model leaves it out.
\<close>

record archetype_info =
  stat_bonuses :: "(pystr, int) dict"
  position :: pystr

definition ARCHETYPES :: "(pystr, archetype_info) dict" where
  "ARCHETYPES =
    [(Meneur, \<lparr>stat_bonuses = [(Manip_Ballon, 15), (Agilite, 10), (Vitesse, 10),
                 (Precision, 5), (Force_Physique, -10), (Detente, -5)],
               position = Guard\<rparr>),
     (Arriere, \<lparr>stat_bonuses = [(Precision, 15), (Defense, 10), (Vitesse, 5),
                 (Agilite, 5), (Force_Physique, -5), (Detente, -5)],
                position = Guard\<rparr>),
     (Ailier, \<lparr>stat_bonuses = [(Agilite, 8), (Precision, 7), (Defense, 7),
                 (Vitesse, 3), (Force_Physique, -5)],
               position = Forward\<rparr>),
     (Ailier_Fort, \<lparr>stat_bonuses = [(Force_Physique, 15), (Detente, 10), (Defense, 8),
                 (Endurance, 2), (Vitesse, -10), (Agilite, -5)],
                    position = Forward\<rparr>),
     (Pivot, \<lparr>stat_bonuses = [(Force_Physique, 20), (Detente, 15), (Defense, 10),
                 (Endurance, 5), (Vitesse, -15), (Agilite, -10), (Precision, -5)],
              position = Center\<rparr>),
     (Generaliste, \<lparr>stat_bonuses = [], position = Flexible\<rparr>)]"

subsection \<open>Roles\<close>

abbreviation role_Meneur :: pystr where
  "role_Meneur \<equiv> [127936, 32, 77, 101, 110, 101, 117, 114]"
  \<comment> \<open>U+1F3C0, then " Meneur"\<close>
abbreviation role_Arriere :: pystr where
  "role_Arriere \<equiv> [127919, 32, 65, 114, 114, 105, 232, 114, 101]"
  \<comment> \<open>U+1F3AF, then " Arri\`ere"\<close>
abbreviation role_Ailier :: pystr where
  "role_Ailier \<equiv> [9889, 32, 65, 105, 108, 105, 101, 114]"
  \<comment> \<open>U+26A1, then " Ailier"\<close>
abbreviation role_Ailier_Fort :: pystr where
  "role_Ailier_Fort \<equiv> [128170, 32, 65, 105, 108, 105, 101, 114, 32, 70, 111, 114, 116]"
  \<comment> \<open>U+1F4AA, then " Ailier Fort"\<close>
abbreviation role_Pivot :: pystr where
  "role_Pivot \<equiv> [127959, 65039, 32, 80, 105, 118, 111, 116]"
  \<comment> \<open>U+1F3D7 U+FE0F, then " Pivot"\<close>
abbreviation role_Flex :: pystr where
  "role_Flex \<equiv> [128260, 32, 70, 108, 101, 120]"
  \<comment> \<open>U+1F504, then " Flex"\<close>

definition ROLE_ARCHETYPE_MAPPING :: "(pystr, pystr) dict" where
  "ROLE_ARCHETYPE_MAPPING =
    [(role_Meneur, Meneur), (role_Arriere, Arriere), (role_Ailier, Ailier),
     (role_Ailier_Fort, Ailier_Fort), (role_Pivot, Pivot), (role_Flex, Generaliste)]"

abbreviation Moderateur :: pystr where
  "Moderateur \<equiv> [77, 111, 100, 233, 114, 97, 116, 101, 117, 114]"
  \<comment> \<open>"Mod\'erateur"\<close>
abbreviation Administrateur :: pystr where
  "Administrateur \<equiv> [65, 100, 109, 105, 110, 105, 115, 116, 114, 97, 116, 101, 117, 114]"
  \<comment> \<open>"Administrateur"\<close>
abbreviation Coach :: pystr where "Coach \<equiv> [67, 111, 97, 99, 104]"
abbreviation Staff :: pystr where "Staff \<equiv> [83, 116, 97, 102, 102]"

definition ADMIN_ROLES :: "pystr list" where
  "ADMIN_ROLES = [Moderateur, Administrateur, Coach, Staff]"

text \<open>\<open>get_archetype_from_roles\<close> receives the names of the member's roles, in order.\<close>

fun get_archetype_from_roles :: "pystr list \<Rightarrow> pystr" where
  "get_archetype_from_roles [] = Generaliste"
| "get_archetype_from_roles (role # member_roles) =
     (case dict_get ROLE_ARCHETYPE_MAPPING role of
        Some a \<Rightarrow> a
      | None \<Rightarrow> get_archetype_from_roles member_roles)"

subsection \<open>BOT\_CONFIG\<close>

datatype config_value =
    Num int
  | Str pystr
  | Stat_table "(pystr, int) dict"
  | Bonus_table "(pystr, (pystr, int) dict) dict"

abbreviation k_max_stat_value :: pystr where
  "k_max_stat_value \<equiv> [109, 97, 120, 95, 115, 116, 97, 116, 95, 118, 97, 108, 117, 101]"
  \<comment> \<open>"max\_stat\_value"\<close>
abbreviation k_max_points_per_add :: pystr where
  "k_max_points_per_add \<equiv>
     [109, 97, 120, 95, 112, 111, 105, 110, 116, 115, 95, 112, 101, 114, 95, 97, 100, 100]"
  \<comment> \<open>"max\_points\_per\_add"\<close>
abbreviation k_base_stats :: pystr where
  "k_base_stats \<equiv> [98, 97, 115, 101, 95, 115, 116, 97, 116, 115]"
  \<comment> \<open>"base\_stats"\<close>
abbreviation k_archetype_bonuses :: pystr where
  "k_archetype_bonuses \<equiv>
     [97, 114, 99, 104, 101, 116, 121, 112, 101, 95, 98, 111, 110, 117, 115, 101, 115]"
  \<comment> \<open>"archetype\_bonuses"\<close>

definition BOT_CONFIG :: "(pystr, config_value) dict" where
  "BOT_CONFIG =
    [([99, 111, 109, 109, 97, 110, 100, 95, 112, 114, 101, 102, 105, 120], Str [33]),
     (k_max_stat_value, Num 1000),
     ([109, 105, 110, 95, 115, 116, 97, 116, 95, 118, 97, 108, 117, 101], Num 0),
     ([98, 97, 115, 101, 95, 115, 116, 97, 116, 95, 118, 97, 108, 117, 101], Num 500),
     (k_max_points_per_add, Num 100),
     ([101, 109, 98, 101, 100, 95, 99, 111, 108, 111, 114], Num 16739125),
     ([115, 117, 99, 99, 101, 115, 115, 95, 99, 111, 108, 111, 114], Num 65280),
     ([101, 114, 114, 111, 114, 95, 99, 111, 108, 111, 114], Num 16711680),
     ([119, 97, 114, 110, 105, 110, 103, 95, 99, 111, 108, 111, 114], Num 16776960)]"
  \<comment> \<open>keys: "command\_prefix" ("!"), "max\_stat\_value", "min\_stat\_value",
      "base\_stat\_value", "max\_points\_per\_add", "embed\_color", "success\_color",
      "error\_color", "warning\_color"\<close>

text \<open>
  \<open>BOT_CONFIG["max_stat_value"]\<close> and \<open>BOT_CONFIG["max_points_per_add"]\<close>, the two
  integer entries the commands read. Both keys are in the table (lemma
  \<open>BOT_CONFIG_entries\<close>), so these lookups never raise.
\<close>

definition config_num :: "pystr \<Rightarrow> int" where
  "config_num k = (case dict_get BOT_CONFIG k of Some (Num n) \<Rightarrow> n | _ \<Rightarrow> undefined)"


subsection \<open>Stat tables and stat-name resolution\<close>

definition STAT_EMOJIS :: "(pystr, pystr) dict" where
  "STAT_EMOJIS =
    [(Force_Physique, [128170]), (Precision, [127919]), (Manip_Ballon, [127936]),
     (Agilite, [9889]), (Detente, [129432]), (Defense, [128737, 65039]),
     (Vitesse, [128168]), (Endurance, [128267])]"

abbreviation abbr_FOR :: pystr where "abbr_FOR \<equiv> [70, 79, 82]"
abbreviation abbr_PREC :: pystr where "abbr_PREC \<equiv> [80, 82, 69, 67]"
abbreviation abbr_BALL :: pystr where "abbr_BALL \<equiv> [66, 65, 76, 76]"
abbreviation abbr_AGI :: pystr where "abbr_AGI \<equiv> [65, 71, 73]"
abbreviation abbr_DET :: pystr where "abbr_DET \<equiv> [68, 69, 84]"
abbreviation abbr_DEF :: pystr where "abbr_DEF \<equiv> [68, 69, 70]"
abbreviation abbr_VIT :: pystr where "abbr_VIT \<equiv> [86, 73, 84]"
abbreviation abbr_END :: pystr where "abbr_END \<equiv> [69, 78, 68]"

definition STAT_ABBREVIATIONS :: "(pystr, pystr) dict" where
  "STAT_ABBREVIATIONS =
    [(Force_Physique, abbr_FOR), (Precision, abbr_PREC), (Manip_Ballon, abbr_BALL),
     (Agilite, abbr_AGI), (Detente, abbr_DET), (Defense, abbr_DEF),
     (Vitesse, abbr_VIT), (Endurance, abbr_END)]"

text \<open>
  \<open>str.lower\<close> and \<open>str.upper\<close>, code point by code point. The two functions follow
  Python on the blocks Basic Latin and Latin-1 Supplement (U+0000 to U+00FF), which
  hold every character of the tables above: the letters A-Z and U+00C0 to U+00DE
  (without the sign U+00D7) have their lower case 32 above; upper-casing goes 32 down,
  and turns U+00DF into "SS", U+00FF into U+0178 and U+00B5 into U+039C. Code points
  above U+00FF are left as they are, which is not what Python does for all of them;
  \<open>latin1\<close> marks the strings on which the model is Python's.
\<close>

definition lower_cp :: "nat \<Rightarrow> nat" where
  "lower_cp c =
     (if (65 \<le> c \<and> c \<le> 90) \<or> (192 \<le> c \<and> c \<le> 222 \<and> c \<noteq> 215) then c + 32 else c)"

definition upper_cp :: "nat \<Rightarrow> nat list" where
  "upper_cp c =
     (if (97 \<le> c \<and> c \<le> 122) \<or> (224 \<le> c \<and> c \<le> 254 \<and> c \<noteq> 247) then [c - 32]
      else if c = 223 then [83, 83]
      else if c = 255 then [376]
      else if c = 181 then [924]
      else [c])"

definition py_lower :: "pystr \<Rightarrow> pystr" where
  "py_lower s = map lower_cp s"

definition py_upper :: "pystr \<Rightarrow> pystr" where
  "py_upper s = concat (map upper_cp s)"


text \<open>\<open>a in b\<close> on strings: \<open>a\<close> occurs in \<open>b\<close> as a contiguous piece.\<close>

fun starts_with :: "pystr \<Rightarrow> pystr \<Rightarrow> bool" where
  "starts_with s [] = True"
| "starts_with [] (a # as) = False"
| "starts_with (c # s) (a # as) = (c = a \<and> starts_with s as)"

fun py_in :: "pystr \<Rightarrow> pystr \<Rightarrow> bool" where
  "py_in a [] = (a = [])"
| "py_in a (c # b) = (starts_with (c # b) a \<or> py_in a b)"

definition validate_stat_name :: "pystr \<Rightarrow> pystr option" where
  "validate_stat_name stat_name =
     (if dict_get STAT_EMOJIS stat_name \<noteq> None then Some stat_name
      else case find (\<lambda>(full_name, abbrev). py_upper stat_name = abbrev) STAT_ABBREVIATIONS of
          Some (full_name, abbrev) \<Rightarrow> Some full_name
        | None \<Rightarrow>
            (let stat_lower = py_lower stat_name
             in find (\<lambda>full_name. py_in stat_lower (py_lower full_name))
                  (dict_keys STAT_EMOJIS)))"

subsection \<open>Privileges\<close>

text \<open>
  What the code reads of a \<open>discord.Member\<close>, a guild and an interaction. \<open>m_roles\<close>
  are the names of the member's roles; \<open>m_guild_owner\<close> is \<open>member.guild.owner_id\<close>.
\<close>

record discord_member =
  m_id :: int
  m_display_name :: pystr
  m_roles :: "pystr list"
  m_administrator :: bool
  m_manage_guild :: bool
  m_guild_owner :: int

record guild =
  g_owner_id :: int
  g_members :: "int \<rightharpoonup> discord_member"

record interaction =
  i_user_id :: int
  i_user_display_name :: pystr
  i_guild :: "guild option"

definition is_admin :: "pystr list \<Rightarrow> discord_member option \<Rightarrow> bool" where
  "is_admin member_roles mem =
     (case mem of
        Some m \<Rightarrow>
          if m_guild_owner m = m_id m then True
          else if m_administrator m then True
          else if m_manage_guild m then True
          else list_ex (\<lambda>role. role \<in> set ADMIN_ROLES) member_roles
      | None \<Rightarrow> list_ex (\<lambda>role. role \<in> set ADMIN_ROLES) member_roles)"


section \<open>models.py\<close>

record PlayerProfile =
  user_id :: int
  username :: pystr
  archetype :: pystr
  stats :: "(pystr, int) dict"
  available_points :: int
  character_name :: pystr
  first_name :: pystr
  age :: int
  height :: int
  weight :: int
  profile_image :: pystr
  embed_color :: int
  created_at :: nat
  updated_at :: nat

text \<open>
  The constructor. \<open>now\<close> stands for the value of \<open>datetime.now()\<close> when the
  constructor runs.
\<close>

definition init_profile :: "nat \<Rightarrow> int \<Rightarrow> pystr \<Rightarrow> pystr \<Rightarrow> PlayerProfile" where
  "init_profile now uid uname arch =
    \<lparr>user_id = uid, username = uname, archetype = arch,
     stats = [(Force_Physique, 500), (Precision, 500), (Manip_Ballon, 500), (Agilite, 500),
              (Detente, 500), (Defense, 500), (Vitesse, 500), (Endurance, 500)],
     available_points = 0,
     character_name = [], first_name = [], age = 0, height = 0, weight = 0,
     profile_image = [], embed_color = 16739125,
     created_at = now, updated_at = now\<rparr>"

text \<open>The loop of \<open>apply_archetype_bonus\<close> over \<open>bonuses.items()\<close>.\<close>

fun apply_bonuses :: "(pystr, int) dict \<Rightarrow> (pystr, int) dict \<Rightarrow> (pystr, int) dict" where
  "apply_bonuses [] st = st"
| "apply_bonuses ((stat, bonus) # bonuses) st =
     apply_bonuses bonuses
       (case dict_get st stat of
          None \<Rightarrow> st
        | Some v \<Rightarrow> dict_set stat (max 0 (min 100 (v + bonus))) st)"

definition apply_archetype_bonus ::
  "PlayerProfile \<Rightarrow> (pystr, archetype_info) dict \<Rightarrow> PlayerProfile" where
  "apply_archetype_bonus self archetype_config =
     (case dict_get archetype_config (archetype self) of
        None \<Rightarrow> self
      | Some info \<Rightarrow> self\<lparr>stats := apply_bonuses (stat_bonuses info) (stats self)\<rparr>)"

definition add_stat_points :: "nat \<Rightarrow> PlayerProfile \<Rightarrow> pystr \<Rightarrow> int \<Rightarrow> bool \<times> PlayerProfile" where
  "add_stat_points now self stat points =
     (case dict_get (stats self) stat of
        None \<Rightarrow> (False, self)
      | Some cur \<Rightarrow>
          if points < 0 \<or> points > available_points self then (False, self)
          else let new_value = cur + points in
            if new_value > 1000 then (False, self)
            else (True, self\<lparr>stats := dict_set stat new_value (stats self),
                              available_points := available_points self - points,
                              updated_at := now\<rparr>))"

definition get_total_stats :: "PlayerProfile \<Rightarrow> int" where
  "get_total_stats self = sum_list (dict_values (stats self))"

subsection \<open>DatabaseManager\<close>

text \<open>
  The table \<open>player_profiles\<close> is the list of its rows, and a row is a profile:
  \<open>to_dict\<close> and \<open>from_dict\<close> store and reload every field. \<open>get_profile\<close> is
  \<open>SELECT ... WHERE user_id = ?\<close> and \<open>save_profile\<close> is \<open>INSERT OR REPLACE\<close> on the
  primary key \<open>user_id\<close>. \<open>writable\<close> says whether sqlite accepts a write; when it
  does not, \<open>save_profile\<close> catches the exception and returns \<open>False\<close>. A row of
  \<open>action_logs\<close> is the user, the action, the administrator (0 for none) and the time;
  its \<open>details\<close> text is not modelled.
\<close>

datatype action =
    PROFILE_CREATED | POINTS_ADDED | STAT_ADDED | STAT_CHANGED | PLAYER_RESET

record database =
  profiles :: "PlayerProfile list"
  action_logs :: "(int \<times> action \<times> int \<times> nat) list"
  writable :: bool

definition get_profile :: "database \<Rightarrow> int \<Rightarrow> PlayerProfile option" where
  "get_profile db uid = find (\<lambda>row. user_id row = uid) (profiles db)"

definition save_profile :: "database \<Rightarrow> PlayerProfile \<Rightarrow> bool \<times> database" where
  "save_profile db profile =
     (if writable db
      then (True, db\<lparr>profiles :=
                filter (\<lambda>row. user_id row \<noteq> user_id profile) (profiles db) @ [profile]\<rparr>)
      else (False, db))"

definition log_action :: "nat \<Rightarrow> database \<Rightarrow> int \<Rightarrow> action \<Rightarrow> int \<Rightarrow> database" where
  "log_action now db uid act admin_id =
     (if writable db
      then db\<lparr>action_logs := action_logs db @ [(uid, act, admin_id, now)]\<rparr>
      else db)"


section \<open>commands\_old.py: the prefix commands\<close>

datatype reply =
    Profil_introuvable
  | Profil_existant
  | Profil_cree pystr
  | Erreur_de_creation
  | Aucun_role_detecte
  | Erreur_interne
  | Statistique_invalide
  | Points_invalides
  | Trop_de_points int
  | Points_insuffisants int
  | Limite_de_stat_atteinte int
  | Points_ajoutes int int int
  | Erreur_de_sauvegarde
  | Erreur
  | Permission_refusee
  | Valeur_invalide
  | Statistique_modifiee int int
  | Joueur_reinitialise
  | Erreur_de_reinitialisation

text \<open>
  \<open>!create\<close>. \<open>author_id\<close>, \<open>display_name\<close> and \<open>roles\<close> are \<open>ctx.author.id\<close>,
  \<open>ctx.author.display_name\<close> and the names of \<open>ctx.author.roles\<close>.
\<close>

definition create_profile ::
  "nat \<Rightarrow> database \<Rightarrow> int \<Rightarrow> pystr \<Rightarrow> pystr list \<Rightarrow> reply \<times> database" where
  "create_profile now db author_id display_name roles =
     (case get_profile db author_id of
        Some existing_profile \<Rightarrow> (Profil_existant, db)
      | None \<Rightarrow>
          let archetype = get_archetype_from_roles roles;
              profile = init_profile now author_id display_name archetype;
              profile = apply_archetype_bonus profile ARCHETYPES;
              profile = profile\<lparr>available_points := 200\<rparr>;
              (saved, db') = save_profile db profile
          in if saved
             then (Profil_cree archetype, log_action now db' author_id PROFILE_CREATED 0)
             else (Erreur_de_creation, db'))"


text \<open>
  \<open>!add\<close>. An exception that leaves the command is the \<open>Inl\<close> result. The reply
  \<open>Trop_de_points\<close> carries the limit, \<open>Points_insuffisants\<close> the balance,
  \<open>Limite_de_stat_atteinte\<close> the value \<open>max_addable\<close>, and \<open>Points_ajoutes\<close> the
  old value, the new value and the remaining balance.
\<close>

definition add_stat_points_cmd ::
  "nat \<Rightarrow> database \<Rightarrow> int \<Rightarrow> pystr \<Rightarrow> int \<Rightarrow> (py_error + reply) \<times> database" where
  "add_stat_points_cmd now db author_id stat_name points =
     (case get_profile db author_id of
        None \<Rightarrow> (Inr Profil_introuvable, db)
      | Some profile \<Rightarrow>
        (case validate_stat_name stat_name of
           None \<Rightarrow> (Inr Statistique_invalide, db)
         | Some validated_stat \<Rightarrow>
             if points \<le> 0 then (Inr Points_invalides, db)
             else if points > config_num k_max_points_per_add
               then (Inr (Trop_de_points (config_num k_max_points_per_add)), db)
             else if points > available_points profile
               then (Inr (Points_insuffisants (available_points profile)), db)
             else
               (case dict_get (stats profile) validated_stat of
                  None \<Rightarrow> (Inl (KeyError validated_stat), db)
                | Some current_stat \<Rightarrow>
                    if current_stat + points > config_num k_max_stat_value
                    then (Inr (Limite_de_stat_atteinte
                                 (config_num k_max_stat_value - current_stat)), db)
                    else
                      (case add_stat_points now profile validated_stat points of
                         (False, profile') \<Rightarrow> (Inr Erreur, db)
                       | (True, profile') \<Rightarrow>
                           (case save_profile db profile' of
                              (False, db') \<Rightarrow> (Inr Erreur_de_sauvegarde, db')
                            | (True, db') \<Rightarrow>
                                (case dict_get (stats profile') validated_stat of
                                   None \<Rightarrow>
                                     (Inl (KeyError validated_stat),
                                      log_action now db' author_id POINTS_ADDED 0)
                                 | Some new_value \<Rightarrow>
                                     (Inr (Points_ajoutes current_stat new_value
                                             (available_points profile')),
                                      log_action now db' author_id POINTS_ADDED 0)))))))"


section \<open>slash\_commands.py\<close>


text \<open>
  \<open>/create\<close>. The whole body is inside \<open>try\<close>, and the handler answers any exception
  with the reply \<open>Erreur_interne\<close>. After the profile is saved and logged the code reads
  \<open>archetype_info["bonuses"]\<close>; an entry of \<open>ARCHETYPES\<close> has the keys
  \<open>archetype_info_keys\<close>.
\<close>

abbreviation k_description :: pystr where
  "k_description \<equiv> [100, 101, 115, 99, 114, 105, 112, 116, 105, 111, 110]"
  \<comment> \<open>"description"\<close>
abbreviation k_stat_bonuses :: pystr where
  "k_stat_bonuses \<equiv> [115, 116, 97, 116, 95, 98, 111, 110, 117, 115, 101, 115]"
  \<comment> \<open>"stat\_bonuses"\<close>
abbreviation k_position :: pystr where
  "k_position \<equiv> [112, 111, 115, 105, 116, 105, 111, 110]"
  \<comment> \<open>"position"\<close>

definition archetype_info_keys :: "pystr list" where
  "archetype_info_keys = [k_description, k_stat_bonuses, k_position]"

abbreviation k_bonuses :: pystr where
  "k_bonuses \<equiv> [98, 111, 110, 117, 115, 101, 115]"
  \<comment> \<open>"bonuses"\<close>

definition slash_create_profile ::
  "nat \<Rightarrow> database \<Rightarrow> interaction \<Rightarrow> reply \<times> database" where
  "slash_create_profile now db itx =
     (case get_profile db (i_user_id itx) of
        Some existing_profile \<Rightarrow> (Profil_existant, db)
      | None \<Rightarrow>
          let archetype =
                (case i_guild itx of
                   Some g \<Rightarrow>
                     (case g_members g (i_user_id itx) of
                        Some m \<Rightarrow> Some (get_archetype_from_roles (m_roles m))
                      | None \<Rightarrow> None)
                 | None \<Rightarrow> None)
          in (case archetype of
                None \<Rightarrow> (Aucun_role_detecte, db)
              | Some arch \<Rightarrow>
                  (if arch = [] then (Aucun_role_detecte, db)
                   else
                     (case save_profile db
                             (init_profile now (i_user_id itx) (i_user_display_name itx) arch) of
                        (False, db') \<Rightarrow> (Erreur_de_creation, db')
                      | (True, db') \<Rightarrow>
                          (let db'' = log_action now db' (i_user_id itx) PROFILE_CREATED 0
                           in (case dict_get ARCHETYPES arch of
                                 None \<Rightarrow> (Erreur_interne, db'')
                               | Some archetype_info \<Rightarrow>
                                   (if k_bonuses \<in> set archetype_info_keys
                                    then (Profil_cree arch, db'')
                                    else (Erreur_interne, db''))))))))"

text \<open>
  \<open>/addstat\<close>. \<open>Points_ajoutes\<close> is the success reply here too (the embed titled
  "Statistique am\'elior\'ee"): old value, new value, remaining balance.
\<close>

definition add_stat ::
  "nat \<Rightarrow> database \<Rightarrow> interaction \<Rightarrow> pystr \<Rightarrow> int \<Rightarrow> (py_error + reply) \<times> database" where
  "add_stat now db itx statistique points =
     (case get_profile db (i_user_id itx) of
        None \<Rightarrow> (Inr Profil_introuvable, db)
      | Some profile \<Rightarrow>
          if points \<le> 0 then (Inr Points_invalides, db)
          else if points > available_points profile
            then (Inr (Points_insuffisants (available_points profile)), db)
          else
            (case dict_get (stats profile) statistique of
               None \<Rightarrow> (Inl (KeyError statistique), db)
             | Some current_stat \<Rightarrow>
                 if current_stat + points > config_num k_max_stat_value
                 then (Inr (Limite_de_stat_atteinte
                              (config_num k_max_stat_value - current_stat)), db)
                 else
                   let profile' = profile\<lparr>
                         stats := dict_set statistique (current_stat + points) (stats profile),
                         available_points := available_points profile - points,
                         updated_at := now\<rparr>
                   in (case save_profile db profile' of
                         (False, db') \<Rightarrow> (Inr Erreur_de_sauvegarde, db')
                       | (True, db') \<Rightarrow>
                           (Inr (Points_ajoutes current_stat (current_stat + points)
                                   (available_points profile')),
                            log_action now db' (i_user_id itx) STAT_ADDED 0))))"


section \<open>admin\_commands.py\<close>

definition check_admin_permissions :: "interaction \<Rightarrow> bool" where
  "check_admin_permissions itx =
     (case i_guild itx of
        None \<Rightarrow> False
      | Some g \<Rightarrow>
          if g_owner_id g = i_user_id itx then True
          else (case g_members g (i_user_id itx) of
                  Some m \<Rightarrow> is_admin (m_roles m) (Some m)
                | None \<Rightarrow> False))"

text \<open>\<open>/setstat\<close>. \<open>Statistique_modifiee\<close> carries the old and the new value.\<close>

definition set_stat ::
  "nat \<Rightarrow> database \<Rightarrow> interaction \<Rightarrow> int \<Rightarrow> pystr \<Rightarrow> int \<Rightarrow> (py_error + reply) \<times> database" where
  "set_stat now db itx joueur_id statistique valeur =
     (if \<not> check_admin_permissions itx then (Inr Permission_refusee, db)
      else
        (case get_profile db joueur_id of
           None \<Rightarrow> (Inr Profil_introuvable, db)
         | Some profile \<Rightarrow>
             if valeur < 0 \<or> valeur > config_num k_max_stat_value
             then (Inr Valeur_invalide, db)
             else
               (case dict_get (stats profile) statistique of
                  None \<Rightarrow> (Inl (KeyError statistique), db)
                | Some old_value \<Rightarrow>
                    let profile' = profile\<lparr>
                          stats := dict_set statistique valeur (stats profile),
                          updated_at := now\<rparr>
                    in (case save_profile db profile' of
                          (False, db') \<Rightarrow> (Inr Erreur_de_sauvegarde, db')
                        | (True, db') \<Rightarrow>
                            (Inr (Statistique_modifiee old_value valeur),
                             log_action now db' joueur_id STAT_CHANGED (i_user_id itx))))))"

text \<open>
  The button "Confirmer" of \<open>/resetplayer\<close>. \<open>profile\<close> is the profile the command
  loaded before it asked for confirmation, \<open>joueur_id\<close> the player and \<open>admin_id\<close> the
  user who ran the command. The loop \<open>for stat in base_stats\<close> is \<open>add_bonuses\<close>.
  An exception leaves the callback before anything is saved; a configuration value
  that is not a table of the shape the code uses raises too (\<open>AttributeError\<close> in the
  model).
\<close>

fun add_bonuses :: "pystr list \<Rightarrow> (pystr, int) dict \<Rightarrow> (pystr, int) dict \<Rightarrow> (pystr, int) dict" where
  "add_bonuses [] archetype_bonuses base_stats = base_stats"
| "add_bonuses (stat # ks) archetype_bonuses base_stats =
     add_bonuses ks archetype_bonuses
       (case dict_get base_stats stat of
          None \<Rightarrow> base_stats
        | Some v \<Rightarrow>
            dict_set stat
              (v + (case dict_get archetype_bonuses stat of None \<Rightarrow> 0 | Some b \<Rightarrow> b))
              base_stats)"

definition reset_confirm ::
  "nat \<Rightarrow> database \<Rightarrow> PlayerProfile \<Rightarrow> int \<Rightarrow> int \<Rightarrow> (py_error + reply) \<times> database" where
  "reset_confirm now db profile joueur_id admin_id =
     (case dict_get BOT_CONFIG k_base_stats of
        None \<Rightarrow> (Inl (KeyError k_base_stats), db)
      | Some (Stat_table base) \<Rightarrow>
          (case dict_get BOT_CONFIG k_archetype_bonuses of
             None \<Rightarrow> (Inl (KeyError k_archetype_bonuses), db)
           | Some (Bonus_table table) \<Rightarrow>
               let archetype_bonuses =
                     (case dict_get table (archetype profile) of None \<Rightarrow> [] | Some b \<Rightarrow> b);
                   base_stats = add_bonuses (dict_keys base) archetype_bonuses base;
                   profile' = profile\<lparr>stats := base_stats, available_points := 0,
                                       updated_at := now\<rparr>
               in (case save_profile db profile' of
                     (False, db') \<Rightarrow> (Inr Erreur_de_reinitialisation, db')
                   | (True, db') \<Rightarrow>
                       (Inr Joueur_reinitialise,
                        log_action now db' joueur_id PLAYER_RESET admin_id))
           | Some other \<Rightarrow> (Inl AttributeError, db))
      | Some other \<Rightarrow> (Inl AttributeError, db))"


section \<open>utils.py\<close>

text \<open>
  Python's \<open>max(xs, key=f)\<close>: the running best is replaced only by an item whose key is
  strictly greater; on an empty sequence it raises (\<open>None\<close>).
\<close>

fun max_from :: "('a \<Rightarrow> 'b::linorder) \<Rightarrow> 'a \<Rightarrow> 'a list \<Rightarrow> 'a" where
  "max_from key best [] = best"
| "max_from key best (x # xs) = max_from key (if key best < key x then x else best) xs"





section \<open>The specification's selection rules\<close>

text \<open>
  "The position name with the highest score, ties resolving to the first-declared
  position": the first entry of the list whose score is not below any score of the list.
\<close>

definition first_highest :: "(pystr \<times> rat) list \<Rightarrow> pystr option" where
  "first_highest xs = map_option fst (find (\<lambda>e. list_all (\<lambda>d. snd d \<le> snd e) xs) xs)"




section \<open>Sample states\<close>

definition empty_db :: database where
  "empty_db = \<lparr>profiles = [], action_logs = [], writable = True\<rparr>"

abbreviation Joueur :: pystr where
  "Joueur \<equiv> [74, 111, 117, 101, 117, 114]"

text \<open>User 1 has run \<open>!create\<close> with no position role: a "G\'en\'eraliste" with 200 points.\<close>

definition db_one :: database where
  "db_one = snd (create_profile 0 empty_db 1 Joueur [])"

text \<open>User 1 outside any guild, and user 9 as the owner of a guild.\<close>

definition itx_one :: interaction where
  "itx_one = \<lparr>i_user_id = 1, i_user_display_name = Joueur, i_guild = None\<rparr>"

definition itx_owner :: interaction where
  "itx_owner = \<lparr>i_user_id = 9, i_user_display_name = Joueur,
                 i_guild = Some \<lparr>g_owner_id = 9, g_members = Map.empty\<rparr>\<rparr>"

text \<open>A profile with "Vitesse" at 995 and 5 points left, alone in the table.\<close>

definition profile_995 :: PlayerProfile where
  "profile_995 = (init_profile 0 1 Joueur Generaliste)
     \<lparr>stats := dict_set Vitesse 995 (stats (init_profile 0 1 Joueur Generaliste)),
      available_points := 5\<rparr>"



section \<open>Basic facts\<close>

lemma BOT_CONFIG_entries:
  "config_num k_max_stat_value = 1000" "config_num k_max_points_per_add = 100"
  by (simp_all add: config_num_def BOT_CONFIG_def)

lemma BOT_CONFIG_missing:
  "dict_get BOT_CONFIG k_base_stats = None" "dict_get BOT_CONFIG k_archetype_bonuses = None"
  by (simp_all add: BOT_CONFIG_def)

lemma dict_get_set: "dict_get (dict_set k v d) k' = (if k' = k then Some v else dict_get d k')"
  by (induction d) auto

lemma dict_set_same: "dict_get d k = Some v \<Longrightarrow> dict_set k v d = d"
  by (induction d) (auto split: if_splits)

lemma sum_dict_set:
  "dict_get d k = Some old \<Longrightarrow>
   sum_list (dict_values (dict_set k v d)) = sum_list (dict_values d) - old + (v::int)"
  by (induction d) (auto simp: dict_values_def split: if_splits)

lemma get_profile_user_id: "get_profile db uid = Some p \<Longrightarrow> user_id p = uid"
  by (auto simp: get_profile_def find_Some_iff)

lemma find_after_replace:
  "find (\<lambda>r. user_id r = uid) (filter (\<lambda>r. user_id r \<noteq> user_id p) xs @ [p]) =
     (if uid = user_id p then Some p else find (\<lambda>r. user_id r = uid) xs)"
  by (induction xs) auto

lemma get_profile_save:
  "save_profile db p = (True, db') \<Longrightarrow>
   get_profile db' uid = (if uid = user_id p then Some p else get_profile db uid)"
  unfolding save_profile_def get_profile_def
  by (auto split: if_splits simp: find_after_replace)

lemma save_profile_cases:
  "save_profile db p = (ok, db') \<Longrightarrow> (ok \<longleftrightarrow> writable db) \<and> (\<not> ok \<longrightarrow> db' = db)"
  by (auto simp: save_profile_def split: if_splits)

lemma get_profile_log_action:
  "get_profile (log_action now db uid act adm) uid' = get_profile db uid'"
  by (simp add: get_profile_def log_action_def)


lemma get_profile_replace:
  "user_id p = u \<Longrightarrow>
   get_profile (db\<lparr>profiles := filter (\<lambda>row. user_id row \<noteq> u) (profiles db) @ [p]\<rparr>) uid
     = (if uid = u then Some p else get_profile db uid)"
  by (auto simp: get_profile_def find_after_replace)

lemma dict_keys_set: "dict_get d k = Some old \<Longrightarrow> dict_keys (dict_set k v d) = dict_keys d"
  by (induction d) (auto simp: dict_keys_def split: if_splits)

lemma db_one_profile:
  "get_profile db_one 1 = Some ((init_profile 0 1 Joueur Generaliste)\<lparr>available_points := 200\<rparr>)"
  by (simp add: db_one_def create_profile_def get_profile_def empty_db_def save_profile_def
        log_action_def apply_archetype_bonus_def init_profile_def ARCHETYPES_def Let_def)

lemma db_one_writable: "writable db_one"
  by (simp add: db_one_def create_profile_def get_profile_def empty_db_def save_profile_def
        log_action_def Let_def)


lemma profile_995_fields:
  "dict_get (stats profile_995) Vitesse = Some 995" "available_points profile_995 = 5"
  by (simp_all add: profile_995_def init_profile_def)

lemma validate_full_names:
  "validate_stat_name Force_Physique = Some Force_Physique"
  "validate_stat_name Vitesse = Some Vitesse"
  by (simp_all add: validate_stat_name_def STAT_EMOJIS_def)

lemma total_after_set:
  "dict_get (stats profile) stat = Some old \<Longrightarrow>
   get_total_stats (profile\<lparr>stats := dict_set stat (old + p) (stats profile),
                             available_points := a, updated_at := t\<rparr>)
     = get_total_stats profile + p"
  by (simp add: get_total_stats_def sum_dict_set)

lemma admin_owner: "check_admin_permissions itx_owner"
  by (simp add: check_admin_permissions_def itx_owner_def)


section \<open>Profile creation with the archetype "Pivot"\<close>

text \<open>
  Claim C1. The claim: with base value 500 and ceiling 1000, creating a "Pivot" gives
  Force Physique 520, D\'etente 515, D\'efense 510, Endurance 505, Vitesse 485,
  Agilit\'e 490, Pr\'ecision 495, Manip. Ballon 500, total 4020. What \<open>!create\<close>
  computes for a member whose role is the "Pivot" role, on an empty table:
  \<open>apply_archetype_bonus\<close> clamps with \<open>min(100, ...)\<close>, so each of the seven stats
  with a bonus ends at 100, "Manip. Ballon" stays at 500, and the total is 1200.
\<close>

theorem create_profile_Pivot_clamps_to_100:
  "fst (create_profile now empty_db uid nm [role_Pivot]) = Profil_cree Pivot
   \<and> map_option stats (get_profile (snd (create_profile now empty_db uid nm [role_Pivot])) uid)
       = Some [(Force_Physique, 100), (Precision, 100), (Manip_Ballon, 500), (Agilite, 100),
               (Detente, 100), (Defense, 100), (Vitesse, 100), (Endurance, 100)]
   \<and> map_option get_total_stats
         (get_profile (snd (create_profile now empty_db uid nm [role_Pivot])) uid) = Some 1200"
  by (simp add: create_profile_def get_profile_def empty_db_def save_profile_def
        log_action_def ROLE_ARCHETYPE_MAPPING_def apply_archetype_bonus_def init_profile_def
        ARCHETYPES_def get_total_stats_def dict_values_def Let_def)


section \<open>Reset\<close>

text \<open>
  Claim C2. The claim: the confirmed reset recomputes every stat as base value plus
  archetype bonus, sets the available points to 0 and keeps the rest of the profile.
  What the callback does: its first statement reads \<open>BOT_CONFIG["base_stats"]\<close>, a key
  that \<open>BOT_CONFIG\<close> does not have, so for every profile and every table it raises
  \<open>KeyError\<close> and the table is left as it was.
\<close>

theorem reset_confirm_raises_KeyError:
  "reset_confirm now db profile joueur_id admin_id = (Inl (KeyError k_base_stats), db)"
  by (simp add: reset_confirm_def BOT_CONFIG_missing)

section \<open>Allocation\<close>

lemma add_stat_success:
  assumes "get_profile db (i_user_id itx) = Some profile"
    and "dict_get (stats profile) stat = Some old"
    and "0 < p" "p \<le> available_points profile" "old + p \<le> 1000" "writable db"
  shows "fst (add_stat now db itx stat p)
           = Inr (Points_ajoutes old (old + p) (available_points profile - p))"
    and "get_profile (snd (add_stat now db itx stat p)) (i_user_id itx)
           = Some (profile\<lparr>stats := dict_set stat (old + p) (stats profile),
                            available_points := available_points profile - p,
                            updated_at := now\<rparr>)"
  using assms get_profile_user_id[OF assms(1)]
  by (simp_all add: add_stat_def BOT_CONFIG_entries save_profile_def Let_def
        get_profile_log_action get_profile_replace)

lemma add_stat_success_only:
  assumes "get_profile db (i_user_id itx) = Some profile"
    and "dict_get (stats profile) stat = Some old"
    and "fst (add_stat now db itx stat p) = Inr (Points_ajoutes a b c)"
  shows "0 < p \<and> p \<le> available_points profile \<and> old + p \<le> 1000 \<and> writable db"
  using assms
  by (auto simp: add_stat_def BOT_CONFIG_entries save_profile_def Let_def split: if_splits)

lemma add_stat_points_cmd_batch_limit:
  "get_profile db uid = Some profile \<Longrightarrow> validate_stat_name token = Some stat \<Longrightarrow>
   100 < points \<Longrightarrow>
   add_stat_points_cmd now db uid token points = (Inr (Trop_de_points 100), db)"
  by (simp add: add_stat_points_cmd_def BOT_CONFIG_entries)

lemma add_stat_points_cmd_success:
  assumes "get_profile db uid = Some profile"
    and "validate_stat_name token = Some stat"
    and "dict_get (stats profile) stat = Some old"
    and "0 < p" "p \<le> 100" "p \<le> available_points profile" "old + p \<le> 1000" "writable db"
  shows "fst (add_stat_points_cmd now db uid token p)
           = Inr (Points_ajoutes old (old + p) (available_points profile - p))"
    and "get_profile (snd (add_stat_points_cmd now db uid token p)) uid
           = Some (profile\<lparr>stats := dict_set stat (old + p) (stats profile),
                            available_points := available_points profile - p,
                            updated_at := now\<rparr>)"
  using assms get_profile_user_id[OF assms(1)]
  by (simp_all add: add_stat_points_cmd_def add_stat_points_def BOT_CONFIG_entries
        save_profile_def Let_def get_profile_log_action get_profile_replace dict_get_set)

lemma add_stat_points_cmd_success_only:
  assumes "get_profile db uid = Some profile"
    and "validate_stat_name token = Some stat"
    and "dict_get (stats profile) stat = Some old"
    and "fst (add_stat_points_cmd now db uid token p) = Inr (Points_ajoutes a b c)"
  shows "0 < p \<and> p \<le> 100 \<and> p \<le> available_points profile \<and> old + p \<le> 1000 \<and> writable db"
  using assms
  by (auto simp: add_stat_points_cmd_def add_stat_points_def BOT_CONFIG_entries
        save_profile_def Let_def dict_get_set split: if_splits)



text \<open>
  Claim C3. The claim: an allocation of more than 100 points fails with
  \<open>ExceedsBatchLimit\<close> on every allocation path, before anything is modified. The
  prefix command \<open>!add\<close> does refuse such a request (\<open>add_stat_points_cmd_batch_limit\<close>,
  reply \<open>Trop_de_points\<close>). The slash command \<open>/addstat\<close> never reads
  \<open>max_points_per_add\<close>: for the player of \<open>db_one\<close>, with 200 points and
  "Force Physique" at 500, a request for 150 points succeeds and is stored, the stat
  going to 650 and the balance to 50.
\<close>

theorem add_stat_accepts_150_points:
  "fst (add_stat now db_one itx_one Force_Physique 150) = Inr (Points_ajoutes 500 650 50)
   \<and> map_option (\<lambda>p. (dict_get (stats p) Force_Physique, available_points p))
        (get_profile (snd (add_stat now db_one itx_one Force_Physique 150)) 1)
       = Some (Some 650, 50)"
proof -
  have g: "get_profile db_one (i_user_id itx_one)
             = Some ((init_profile 0 1 Joueur Generaliste)\<lparr>available_points := 200\<rparr>)"
    by (simp add: itx_one_def db_one_profile)
  have s: "dict_get (stats ((init_profile 0 1 Joueur Generaliste)\<lparr>available_points := 200\<rparr>))
             Force_Physique = Some 500"
    by (simp add: init_profile_def)
  have i: "i_user_id itx_one = 1" by (simp add: itx_one_def)
  show ?thesis
    using add_stat_success[OF g s, of 150 now] db_one_writable
    by (simp add: i init_profile_def)
qed

text \<open>
  Claim C5. For a stored profile and a stat it has, with value \<open>old\<close>: (1) whenever
  \<open>PlayerProfile.add_stat_points\<close> returns \<open>True\<close> the stat is \<open>old + p\<close>, the balance
  has dropped by \<open>p\<close> and the total of the stats has grown by \<open>p\<close>; (2) it returns
  \<open>True\<close> for every \<open>p\<close> with \<open>1 \<le> p \<le> min(available_points, 1000 - old)\<close>;
  (3) whenever \<open>/addstat\<close> answers with its success reply, the reply shows \<open>old\<close>,
  \<open>old + p\<close> and the balance less \<open>p\<close>, and the stored profile has exactly that stat
  value, balance and total; (4) on a writable database \<open>/addstat\<close> succeeds for every
  \<open>p\<close> of that range; (5) and (6) the same for \<open>!add\<close> with a token that resolves to
  the stat, where the range is also bounded by the limit of 100 points per call.
\<close>

theorem allocate_conserves_points:
  assumes "get_profile db uid = Some profile" and "dict_get (stats profile) stat = Some old"
  shows
    "(\<forall>q. add_stat_points now profile stat p = (True, q) \<longrightarrow>
          dict_get (stats q) stat = Some (old + p)
          \<and> available_points q = available_points profile - p
          \<and> get_total_stats q = get_total_stats profile + p)
     \<and> (1 \<le> p \<and> p \<le> available_points profile \<and> p \<le> 1000 - old \<longrightarrow>
          fst (add_stat_points now profile stat p))
     \<and> (i_user_id itx = uid \<longrightarrow>
          (\<forall>a b c. fst (add_stat now db itx stat p) = Inr (Points_ajoutes a b c) \<longrightarrow>
             a = old \<and> b = old + p \<and> c = available_points profile - p
             \<and> (\<exists>q. get_profile (snd (add_stat now db itx stat p)) uid = Some q
                   \<and> dict_get (stats q) stat = Some (old + p)
                   \<and> available_points q = available_points profile - p
                   \<and> get_total_stats q = get_total_stats profile + p))
          \<and> (writable db \<and> 1 \<le> p \<and> p \<le> available_points profile \<and> p \<le> 1000 - old \<longrightarrow>
               fst (add_stat now db itx stat p)
                 = Inr (Points_ajoutes old (old + p) (available_points profile - p))))
     \<and> (validate_stat_name token = Some stat \<longrightarrow>
          (\<forall>a b c. fst (add_stat_points_cmd now db uid token p) = Inr (Points_ajoutes a b c) \<longrightarrow>
             a = old \<and> b = old + p \<and> c = available_points profile - p
             \<and> (\<exists>q. get_profile (snd (add_stat_points_cmd now db uid token p)) uid = Some q
                   \<and> dict_get (stats q) stat = Some (old + p)
                   \<and> available_points q = available_points profile - p
                   \<and> get_total_stats q = get_total_stats profile + p))
          \<and> (writable db \<and> 1 \<le> p \<and> p \<le> 100 \<and> p \<le> available_points profile
                \<and> p \<le> 1000 - old \<longrightarrow>
               fst (add_stat_points_cmd now db uid token p)
                 = Inr (Points_ajoutes old (old + p) (available_points profile - p))))"
proof (intro conjI impI allI)
  fix q assume "add_stat_points now profile stat p = (True, q)"
  then have q: "q = profile\<lparr>stats := dict_set stat (old + p) (stats profile),
                            available_points := available_points profile - p,
                            updated_at := now\<rparr>"
    using assms(2) by (auto simp: add_stat_points_def Let_def split: if_splits)
  show "dict_get (stats q) stat = Some (old + p)" by (simp add: q dict_get_set)
  show "available_points q = available_points profile - p" by (simp add: q)
  show "get_total_stats q = get_total_stats profile + p"
    unfolding q by (rule total_after_set[OF assms(2)])
next
  assume "1 \<le> p \<and> p \<le> available_points profile \<and> p \<le> 1000 - old"
  then show "fst (add_stat_points now profile stat p)"
    using assms(2) by (simp add: add_stat_points_def Let_def)
next
  fix a b c
  assume u: "i_user_id itx = uid"
    and r: "fst (add_stat now db itx stat p) = Inr (Points_ajoutes a b c)"
  have g: "get_profile db (i_user_id itx) = Some profile" using assms(1) u by simp
  from add_stat_success_only[OF g assms(2) r]
  have ok: "0 < p" "p \<le> available_points profile" "old + p \<le> 1000" "writable db" by simp_all
  note s = add_stat_success[OF g assms(2) ok, of now]
  from r s(1) show "a = old" "b = old + p" "c = available_points profile - p" by simp_all
  show "\<exists>q. get_profile (snd (add_stat now db itx stat p)) uid = Some q
          \<and> dict_get (stats q) stat = Some (old + p)
          \<and> available_points q = available_points profile - p
          \<and> get_total_stats q = get_total_stats profile + p"
    using s(2) u total_after_set[OF assms(2)] by (simp add: dict_get_set)
next
  assume u: "i_user_id itx = uid"
    and h: "writable db \<and> 1 \<le> p \<and> p \<le> available_points profile \<and> p \<le> 1000 - old"
  have g: "get_profile db (i_user_id itx) = Some profile" using assms(1) u by simp
  from h show "fst (add_stat now db itx stat p)
                 = Inr (Points_ajoutes old (old + p) (available_points profile - p))"
    by (intro add_stat_success(1)[OF g assms(2)]) simp_all
next
  fix a b c
  assume v: "validate_stat_name token = Some stat"
    and r: "fst (add_stat_points_cmd now db uid token p) = Inr (Points_ajoutes a b c)"
  from add_stat_points_cmd_success_only[OF assms(1) v assms(2) r]
  have ok: "0 < p" "p \<le> 100" "p \<le> available_points profile" "old + p \<le> 1000" "writable db"
    by simp_all
  note s = add_stat_points_cmd_success[OF assms(1) v assms(2) ok, of now]
  from r s(1) show "a = old" "b = old + p" "c = available_points profile - p" by simp_all
  show "\<exists>q. get_profile (snd (add_stat_points_cmd now db uid token p)) uid = Some q
          \<and> dict_get (stats q) stat = Some (old + p)
          \<and> available_points q = available_points profile - p
          \<and> get_total_stats q = get_total_stats profile + p"
    using s(2) total_after_set[OF assms(2)] by (simp add: dict_get_set)
next
  assume v: "validate_stat_name token = Some stat"
    and h: "writable db \<and> 1 \<le> p \<and> p \<le> 100 \<and> p \<le> available_points profile \<and> p \<le> 1000 - old"
  from h show "fst (add_stat_points_cmd now db uid token p)
                 = Inr (Points_ajoutes old (old + p) (available_points profile - p))"
    by (intro add_stat_points_cmd_success(1)[OF assms(1) v assms(2)]) simp_all
qed



theorem allocate_conserves_points_witness:
  "get_profile db_one 1 = Some ((init_profile 0 1 Joueur Generaliste)\<lparr>available_points := 200\<rparr>)
   \<and> dict_get (stats ((init_profile 0 1 Joueur Generaliste)\<lparr>available_points := 200\<rparr>))
         Force_Physique = Some 500
   \<and> fst (add_stat_points 5 ((init_profile 0 1 Joueur Generaliste)\<lparr>available_points := 200\<rparr>)
         Force_Physique 10)
   \<and> fst (add_stat 5 db_one itx_one Force_Physique 10) = Inr (Points_ajoutes 500 510 190)
   \<and> fst (add_stat_points_cmd 5 db_one 1 Force_Physique 10) = Inr (Points_ajoutes 500 510 190)"
proof -
  have s: "dict_get (stats ((init_profile 0 1 Joueur Generaliste)\<lparr>available_points := 200\<rparr>))
             Force_Physique = Some 500"
    by (simp add: init_profile_def)
  note T = allocate_conserves_points[OF db_one_profile s, of 5 10 itx_one Force_Physique]
  have a: "fst (add_stat_points 5 ((init_profile 0 1 Joueur Generaliste)\<lparr>available_points := 200\<rparr>)
         Force_Physique 10)"
    using T[THEN conjunct2, THEN conjunct1] by simp
  have b: "fst (add_stat 5 db_one itx_one Force_Physique 10) = Inr (Points_ajoutes 500 510 190)"
    using T[THEN conjunct2, THEN conjunct2, THEN conjunct1, rule_format, THEN conjunct2]
    by (simp add: itx_one_def db_one_writable)
  have c: "fst (add_stat_points_cmd 5 db_one 1 Force_Physique 10)
             = Inr (Points_ajoutes 500 510 190)"
    using T[THEN conjunct2, THEN conjunct2, THEN conjunct2, rule_format, THEN conjunct2]
    by (simp add: validate_full_names db_one_writable)
  show ?thesis using db_one_profile s a b c by simp
qed





section \<open>Zero-point allocation at the model interface\<close>

lemma add_stat_points_rejects:
  "fst (add_stat_points now self stat points) = False \<longleftrightarrow>
     (dict_get (stats self) stat = None \<or> points < 0 \<or> points > available_points self
      \<or> (\<exists>cur. dict_get (stats self) stat = Some cur \<and> cur + points > 1000))"
  by (auto simp: add_stat_points_def Let_def split: option.splits)

text \<open>
  Claim C10. \<open>PlayerProfile.add_stat_points\<close> returns \<open>False\<close> exactly for a stat the
  profile does not have, negative points, points above the balance, or a result above
  1000. So with \<open>points = 0\<close>, on a stat the profile has, with a value that is at most
  1000 and a balance that is not negative, it returns \<open>True\<close>; the profile it leaves is
  the old one with a new \<open>updated_at\<close>: the stats and the balance are unchanged.
\<close>

theorem add_stat_points_zero_succeeds:
  "(fst (add_stat_points now self stat points) = False \<longleftrightarrow>
      (dict_get (stats self) stat = None \<or> points < 0 \<or> points > available_points self
       \<or> (\<exists>cur. dict_get (stats self) stat = Some cur \<and> cur + points > 1000)))
   \<and> (\<forall>cur. dict_get (stats self) stat = Some cur \<and> cur \<le> 1000 \<and> 0 \<le> available_points self
        \<longrightarrow> add_stat_points now self stat 0 = (True, self\<lparr>updated_at := now\<rparr>)
            \<and> stats (snd (add_stat_points now self stat 0)) = stats self
            \<and> available_points (snd (add_stat_points now self stat 0)) = available_points self)"
proof (intro conjI allI impI)
  show "fst (add_stat_points now self stat points) = False \<longleftrightarrow>
      (dict_get (stats self) stat = None \<or> points < 0 \<or> points > available_points self
       \<or> (\<exists>cur. dict_get (stats self) stat = Some cur \<and> cur + points > 1000))"
    by (rule add_stat_points_rejects)
next
  fix cur
  assume h: "dict_get (stats self) stat = Some cur \<and> cur \<le> 1000 \<and> 0 \<le> available_points self"
  then show r: "add_stat_points now self stat 0 = (True, self\<lparr>updated_at := now\<rparr>)"
    by (simp add: add_stat_points_def Let_def dict_set_same)
  show "stats (snd (add_stat_points now self stat 0)) = stats self" by (simp add: r)
  show "available_points (snd (add_stat_points now self stat 0)) = available_points self"
    by (simp add: r)
qed

theorem add_stat_points_zero_succeeds_witness:
  "dict_get (stats profile_995) Vitesse = Some 995 \<and> (995::int) \<le> 1000
   \<and> 0 \<le> available_points profile_995
   \<and> add_stat_points 3 profile_995 Vitesse 0 = (True, profile_995\<lparr>updated_at := 3\<rparr>)
   \<and> stats (snd (add_stat_points 3 profile_995 Vitesse 0)) = stats profile_995
   \<and> available_points (snd (add_stat_points 3 profile_995 Vitesse 0)) = 5"
proof -
  note T = add_stat_points_zero_succeeds[of 3 profile_995 Vitesse 0,
             THEN conjunct2, rule_format, of 995]
  have h: "dict_get (stats profile_995) Vitesse = Some 995 \<and> (995::int) \<le> 1000
             \<and> 0 \<le> available_points profile_995"
    by (simp add: profile_995_fields)
  show ?thesis using T[OF h] h by (simp add: profile_995_fields)
qed


section \<open>Creating a profile twice\<close>

lemma create_profile_then_exists:
  assumes "create_profile now db uid nm roles = (Profil_cree a, db1)"
  shows "\<exists>p. get_profile db1 uid = Some p"
  using assms
  by (auto simp: create_profile_def Let_def get_profile_log_action get_profile_save init_profile_def apply_archetype_bonus_def
       split: option.splits prod.splits if_splits)

lemma slash_create_profile_then_exists:
  assumes "slash_create_profile now db itx = (r, db1)"
    and "r = Profil_cree a \<or> r = Erreur_interne"
  shows "\<exists>p. get_profile db1 (i_user_id itx) = Some p"
  using assms
  by (auto simp: slash_create_profile_def Let_def get_profile_log_action get_profile_replace
        save_profile_def init_profile_def split: option.splits if_splits)

text \<open>
  Claim C7. When a profile is stored for the player, \<open>!create\<close> and \<open>/create\<close> answer
  \<open>Profil_existant\<close> and return the database they were given, so no field of the
  stored profile changes. In particular a second \<open>!create\<close> after one that created the
  profile, and a second \<open>/create\<close> after one that saved the profile, get that answer.
\<close>

theorem create_profile_already_exists:
  "(get_profile db uid = Some p \<longrightarrow>
      create_profile now db uid nm roles = (Profil_existant, db)
      \<and> (i_user_id itx = uid \<longrightarrow> slash_create_profile now db itx = (Profil_existant, db)))
   \<and> (create_profile now db uid nm roles = (Profil_cree a, db1) \<longrightarrow>
        create_profile now2 db1 uid nm2 roles2 = (Profil_existant, db1))
   \<and> (slash_create_profile now db itx = (r, db1) \<and> (r = Profil_cree a \<or> r = Erreur_interne)
        \<longrightarrow> slash_create_profile now2 db1 itx = (Profil_existant, db1))"
proof (intro conjI impI)
  assume "get_profile db uid = Some p"
  then show "create_profile now db uid nm roles = (Profil_existant, db)"
    by (simp add: create_profile_def)
  assume "i_user_id itx = uid"
  with \<open>get_profile db uid = Some p\<close>
  show "slash_create_profile now db itx = (Profil_existant, db)"
    by (simp add: slash_create_profile_def)
next
  assume "create_profile now db uid nm roles = (Profil_cree a, db1)"
  from create_profile_then_exists[OF this]
  show "create_profile now2 db1 uid nm2 roles2 = (Profil_existant, db1)"
    by (auto simp: create_profile_def)
next
  assume "slash_create_profile now db itx = (r, db1) \<and> (r = Profil_cree a \<or> r = Erreur_interne)"
  then have "\<exists>p. get_profile db1 (i_user_id itx) = Some p"
    using slash_create_profile_then_exists by blast
  then show "slash_create_profile now2 db1 itx = (Profil_existant, db1)"
    by (auto simp: slash_create_profile_def)
qed

lemma create_first: "create_profile 0 empty_db 1 Joueur [] = (Profil_cree Generaliste, db_one)"
  by (simp add: db_one_def create_profile_def get_profile_def empty_db_def save_profile_def
        Let_def)

theorem create_profile_already_exists_witness:
  "get_profile db_one 1
     = Some ((init_profile 0 1 Joueur Generaliste)\<lparr>available_points := 200\<rparr>)
   \<and> create_profile 0 empty_db 1 Joueur [] = (Profil_cree Generaliste, db_one)
   \<and> create_profile 7 db_one 1 Joueur [role_Pivot] = (Profil_existant, db_one)
   \<and> slash_create_profile 7 db_one itx_one = (Profil_existant, db_one)"
proof -
  note T = create_profile_already_exists[of db_one 1 _ 7 Joueur "[role_Pivot]" itx_one]
  have a: "create_profile 7 db_one 1 Joueur [role_Pivot] = (Profil_existant, db_one)"
    using T[THEN conjunct1, rule_format, OF db_one_profile, THEN conjunct1] .
  have b: "slash_create_profile 7 db_one itx_one = (Profil_existant, db_one)"
    using T[THEN conjunct1, rule_format, OF db_one_profile, THEN conjunct2]
    by (simp add: itx_one_def)
  show ?thesis using db_one_profile create_first a b by simp
qed


section \<open>Overriding a stat\<close>

lemma set_stat_range:
  assumes "check_admin_permissions itx" "get_profile db j = Some profile"
    and "dict_get (stats profile) stat = Some old"
  shows "fst (set_stat now db itx j stat v) = Inr Valeur_invalide \<longleftrightarrow> v < 0 \<or> 1000 < v"
    and "v < 0 \<or> 1000 < v \<Longrightarrow> snd (set_stat now db itx j stat v) = db"
    and "fst (set_stat now db itx j stat v) = Inr (Statistique_modifiee a b) \<longleftrightarrow>
           0 \<le> v \<and> v \<le> 1000 \<and> writable db \<and> a = old \<and> b = v"
    and "0 \<le> v \<Longrightarrow> v \<le> 1000 \<Longrightarrow> writable db \<Longrightarrow>
         get_profile (snd (set_stat now db itx j stat v)) j
           = Some (profile\<lparr>stats := dict_set stat v (stats profile), updated_at := now\<rparr>)"
  using assms get_profile_user_id[OF assms(2)]
  by (auto simp: set_stat_def BOT_CONFIG_entries save_profile_def Let_def
       get_profile_log_action get_profile_replace split: if_splits)

text \<open>
  Claim C8. For a privileged caller, a stored profile and a stat it has, with value
  \<open>old\<close>: \<open>/setstat\<close> answers \<open>Valeur_invalide\<close> exactly when the value is below 0 or
  above 1000, and then the database is unchanged; it answers \<open>Statistique_modifiee\<close>
  exactly when the value is in range and the database is writable; and then the stored
  profile has the new value for that stat, the old value for every other key, the
  same keys, the same balance and the same archetype.
\<close>

theorem set_stat_changes_one_stat:
  assumes "check_admin_permissions itx" and "get_profile db j = Some profile"
    and "dict_get (stats profile) stat = Some old"
  shows
    "(fst (set_stat now db itx j stat v) = Inr Valeur_invalide \<longleftrightarrow> v < 0 \<or> 1000 < v)
     \<and> (v < 0 \<or> 1000 < v \<longrightarrow> snd (set_stat now db itx j stat v) = db)
     \<and> (fst (set_stat now db itx j stat v) = Inr (Statistique_modifiee old v) \<longleftrightarrow>
          0 \<le> v \<and> v \<le> 1000 \<and> writable db)
     \<and> (0 \<le> v \<and> v \<le> 1000 \<and> writable db \<longrightarrow>
          (\<exists>q. get_profile (snd (set_stat now db itx j stat v)) j = Some q
             \<and> dict_get (stats q) stat = Some v
             \<and> (\<forall>k. k \<noteq> stat \<longrightarrow> dict_get (stats q) k = dict_get (stats profile) k)
             \<and> dict_keys (stats q) = dict_keys (stats profile)
             \<and> available_points q = available_points profile
             \<and> archetype q = archetype profile))"
proof (intro conjI impI)
  show "fst (set_stat now db itx j stat v) = Inr Valeur_invalide \<longleftrightarrow> v < 0 \<or> 1000 < v"
    by (rule set_stat_range(1)[OF assms])
  show "fst (set_stat now db itx j stat v) = Inr (Statistique_modifiee old v) \<longleftrightarrow>
          0 \<le> v \<and> v \<le> 1000 \<and> writable db"
    using set_stat_range(3)[OF assms, of now v old v] by simp
next
  assume "v < 0 \<or> 1000 < v"
  then show "snd (set_stat now db itx j stat v) = db"
    by (rule set_stat_range(2)[OF assms])
next
  assume "0 \<le> v \<and> v \<le> 1000 \<and> writable db"
  then have "get_profile (snd (set_stat now db itx j stat v)) j
               = Some (profile\<lparr>stats := dict_set stat v (stats profile), updated_at := now\<rparr>)"
    using set_stat_range(4)[OF assms] by simp
  then show "\<exists>q. get_profile (snd (set_stat now db itx j stat v)) j = Some q
             \<and> dict_get (stats q) stat = Some v
             \<and> (\<forall>k. k \<noteq> stat \<longrightarrow> dict_get (stats q) k = dict_get (stats profile) k)
             \<and> dict_keys (stats q) = dict_keys (stats profile)
             \<and> available_points q = available_points profile
             \<and> archetype q = archetype profile"
    using assms(3) by (simp add: dict_get_set dict_keys_set)
qed

theorem set_stat_changes_one_stat_witness:
  "check_admin_permissions itx_owner
   \<and> get_profile db_one 1
       = Some ((init_profile 0 1 Joueur Generaliste)\<lparr>available_points := 200\<rparr>)
   \<and> dict_get (stats ((init_profile 0 1 Joueur Generaliste)\<lparr>available_points := 200\<rparr>))
         Vitesse = Some 500
   \<and> fst (set_stat 4 db_one itx_owner 1 Vitesse 1001) = Inr Valeur_invalide
   \<and> snd (set_stat 4 db_one itx_owner 1 Vitesse 1001) = db_one
   \<and> fst (set_stat 4 db_one itx_owner 1 Vitesse 750) = Inr (Statistique_modifiee 500 750)"
proof -
  have s: "dict_get (stats ((init_profile 0 1 Joueur Generaliste)\<lparr>available_points := 200\<rparr>))
             Vitesse = Some 500"
    by (simp add: init_profile_def)
  note T = set_stat_changes_one_stat[OF admin_owner db_one_profile s]
  have a: "fst (set_stat 4 db_one itx_owner 1 Vitesse 1001) = Inr Valeur_invalide"
    using T[of 4 1001, THEN conjunct1] by simp
  have b: "snd (set_stat 4 db_one itx_owner 1 Vitesse 1001) = db_one"
    using T[of 4 1001, THEN conjunct2, THEN conjunct1] by simp
  have c: "fst (set_stat 4 db_one itx_owner 1 Vitesse 750) = Inr (Statistique_modifiee 500 750)"
    using T[of 4 750, THEN conjunct2, THEN conjunct2, THEN conjunct1]
    by (simp add: db_one_writable)
  show ?thesis using admin_owner db_one_profile s a b c by simp
qed

section \<open>Suggested position\<close>


lemma max_from_mem: "max_from key best xs \<in> set (best # xs)"
  by (induction xs arbitrary: best) auto

lemma max_from_ge: "y \<in> set (best # xs) \<Longrightarrow> key y \<le> key (max_from key best xs)"
proof (induction xs arbitrary: best y)
  case Nil
  then show ?case by simp
next
  case (Cons x xs)
  have b: "key best \<le> key (max_from key (if key best < key x then x else best) xs)"
  proof (cases "key best < key x")
    case True
    have "key x \<le> key (max_from key x xs)" using Cons.IH[of x x] by simp
    with True show ?thesis by simp
  next
    case False
    then show ?thesis using Cons.IH[of best best] by simp
  qed
  have x: "key x \<le> key (max_from key (if key best < key x then x else best) xs)"
  proof (cases "key best < key x")
    case True
    then show ?thesis using Cons.IH[of x x] by simp
  next
    case False
    then have "key x \<le> key best" by simp
    also have "key best \<le> key (max_from key best xs)" using Cons.IH[of best best] by simp
    finally show ?thesis using False by simp
  qed
  from Cons.prems consider "y = best" | "y = x" | "y \<in> set xs" by auto
  then show ?case
  proof cases
    case 1 then show ?thesis using b by simp
  next
    case 2 then show ?thesis using x by simp
  next
    case 3 then show ?thesis using Cons.IH[of y "if key best < key x then x else best"] by simp
  qed
qed

lemma first_highest_Some:
  assumes "first_highest xs = Some n"
  shows "\<exists>i<length xs. fst (xs ! i) = n \<and> (\<forall>j<length xs. snd (xs ! j) \<le> snd (xs ! i))
           \<and> (\<forall>j<i. snd (xs ! j) < snd (xs ! i))"
proof -
  from assms obtain e where f: "find (\<lambda>e. list_all (\<lambda>d. snd d \<le> snd e) xs) xs = Some e"
    and n: "fst e = n"
    by (auto simp: first_highest_def)
  from f obtain i where i: "i < length xs" "xs ! i = e"
    and top: "list_all (\<lambda>d. snd d \<le> snd e) xs"
    and before: "\<forall>j<i. \<not> list_all (\<lambda>d. snd d \<le> snd (xs ! j)) xs"
    unfolding find_Some_iff by blast
  have all: "\<forall>j<length xs. snd (xs ! j) \<le> snd (xs ! i)"
    using top i by (auto simp: list_all_length)
  have "\<forall>j<i. snd (xs ! j) < snd (xs ! i)"
  proof (intro allI impI)
    fix j assume j: "j < i"
    with before have "\<not> list_all (\<lambda>d. snd d \<le> snd (xs ! j)) xs" by simp
    then obtain k where k: "k < length xs" "\<not> snd (xs ! k) \<le> snd (xs ! j)"
      by (auto simp: list_all_length)
    with all have "snd (xs ! j) < snd (xs ! k)" "snd (xs ! k) \<le> snd (xs ! i)" by auto
    then show "snd (xs ! j) < snd (xs ! i)" by simp
  qed
  with i n all show ?thesis by auto
qed




section \<open>Stat-name resolution\<close>






















end
